theory Spec2Isabelle
  imports Complex_Main "HOL-Library.Multiset"
begin

section \<open>The training script \<open>main_train.py\<close>\<close>

text \<open>
  The script parses its command line (\<open>main\<close>), prepares the data and the training
  configuration (\<open>train\<close>) and hands both to a subclass of the framework's training loop,
  \<open>CustomTrainer\<close>, which overrides the loss computation and the construction of the
  learning-rate scheduler. Python's unbounded integers are \<open>int\<close>, its floats are \<open>real\<close>,
  an exception is the \<open>Inl\<close> side of a sum, and an assignment to \<open>self\<close> returns the
  updated object.
\<close>

subsection \<open>Exceptions\<close>

text \<open>
  The exceptions the modelled code can raise. \<open>ConfigurationError\<close> and
  \<open>UnknownLossError\<close> are the two error classes the specification names; no line of
  the script raises or defines them.
\<close>

datatype pyerror =
    UnboundLocalError string
  | ZeroDivisionError
  | TypeError
  | RuntimeError
  | ValueError
  | AttributeError
  | ConfigurationError
  | UnknownLossError

subsection \<open>Command line (\<open>main\<close>, lines 147-192)\<close>

text \<open>
  What the command line supplies for each flag: \<open>None\<close> when the flag is absent. For the
  flags declared with \<open>type=int\<close>, \<open>type=float\<close> or \<open>type=str\<close> the field holds the value
  the conversion returned; for \<open>--augmentation\<close>, declared with \<open>type=bool\<close>, it holds
  the raw argument string, since the conversion \<open>bool(s)\<close> is what is studied.
\<close>

record cli =
  cli_seed :: "int option"
  cli_wandb_path :: "string option"
  cli_model :: "string option"
  cli_loss :: "string option"
  cli_scheduler :: "string option"
  cli_wandb_name :: "string option"
  cli_epochs :: "int option"
  cli_lr :: "real option"
  cli_batch :: "int option"
  cli_batch_valid :: "int option"
  cli_warmup :: "real option"
  cli_logging_steps :: "int option"
  cli_weight_decay :: "real option"
  cli_metric_for_best_model :: "string option"
  cli_add_token :: "int option"
  cli_split_ratio :: "real option"
  cli_augmentation :: "string option"
  cli_generate_option :: "int option"
  cli_warmup_steps :: "int option"

text \<open>The namespace \<open>parser.parse_args()\<close> returns: \<open>args.x\<close> is \<open>args_x\<close>.\<close>

record namespace =
  args_seed :: int
  args_wandb_path :: string
  args_model :: string
  args_loss :: string
  args_scheduler :: string
  args_wandb_name :: string
  args_epochs :: int
  args_lr :: real
  args_batch :: int
  args_batch_valid :: int
  args_warmup :: real
  args_logging_steps :: int
  args_weight_decay :: real
  args_metric_for_best_model :: string
  args_add_token :: int
  args_split_ratio :: real
  args_augmentation :: bool
  args_generate_option :: int
  args_warmup_steps :: int

text \<open>Python's \<open>bool(s)\<close> on a string: only the empty string is false.\<close>

definition py_bool_of_str :: "string \<Rightarrow> bool" where
  "py_bool_of_str s = (s \<noteq> [])"

text \<open>An absent flag takes its declared default; the default is not converted.\<close>

definition get_arg :: "'a \<Rightarrow> 'a option \<Rightarrow> 'a" where
  "get_arg dflt given = (case given of None \<Rightarrow> dflt | Some v \<Rightarrow> v)"

definition parse_args :: "cli \<Rightarrow> namespace" where
  "parse_args c = \<lparr>
     args_seed = get_arg 42 (cli_seed c),
     args_wandb_path = get_arg ''test-project'' (cli_wandb_path c),
     args_model = get_arg ''klue/roberta-large'' (cli_model c),
     args_loss = get_arg ''focal'' (cli_loss c),
     args_scheduler = get_arg ''linear'' (cli_scheduler c),
     args_wandb_name = get_arg ''test'' (cli_wandb_name c),
     args_epochs = get_arg 20 (cli_epochs c),
     args_lr = get_arg (5 / 100000) (cli_lr c),
     args_batch = get_arg 32 (cli_batch c),
     args_batch_valid = get_arg 32 (cli_batch_valid c),
     args_warmup = get_arg (1 / 10) (cli_warmup c),
     args_logging_steps = get_arg 100 (cli_logging_steps c),
     args_weight_decay = get_arg (1 / 100) (cli_weight_decay c),
     args_metric_for_best_model = get_arg ''f1'' (cli_metric_for_best_model c),
     args_add_token = get_arg 15 (cli_add_token c),
     args_split_ratio = get_arg (2 / 10) (cli_split_ratio c),
     args_augmentation = get_arg True (map_option py_bool_of_str (cli_augmentation c)),
     args_generate_option = get_arg 0 (cli_generate_option c),
     args_warmup_steps = get_arg 810 (cli_warmup_steps c) \<rparr>"

text \<open>The command line with no flag at all.\<close>

definition no_flags :: cli where
  "no_flags = \<lparr>
     cli_seed = None, cli_wandb_path = None, cli_model = None, cli_loss = None,
     cli_scheduler = None, cli_wandb_name = None, cli_epochs = None, cli_lr = None,
     cli_batch = None, cli_batch_valid = None, cli_warmup = None,
     cli_logging_steps = None, cli_weight_decay = None,
     cli_metric_for_best_model = None, cli_add_token = None, cli_split_ratio = None,
     cli_augmentation = None, cli_generate_option = None, cli_warmup_steps = None \<rparr>"

subsection \<open>Training configuration and trainer construction (\<open>train\<close>)\<close>

text \<open>
  Lines 84-85: the augmentation step. \<open>main_augmentation\<close> lives in the package
  \<open>augmentation\<close>, which is not part of the script, and is a parameter.
\<close>

definition train_tokenized :: "('d \<Rightarrow> 'd) \<Rightarrow> namespace \<Rightarrow> 'd \<Rightarrow> 'd" where
  "train_tokenized main_augmentation ns tokenized_train =
     (if args_augmentation ns then main_augmentation tokenized_train
      else tokenized_train)"

text \<open>
  Line 89 splits the dataset with scikit-learn's \<open>train_test_split\<close>, passing the split
  ratio as \<open>test_size\<close> and the seed as \<open>random_state\<close>. What the numeric library
  contributes is a parameter: the double-precision product of two numbers (which is not
  their exact product), the generator state a seed gives, and the permutation of the
  indices a generator state draws.
\<close>

record 'g numpy =
  float_product :: "real \<Rightarrow> real \<Rightarrow> real"
  RandomState :: "int \<Rightarrow> 'g"
  permutation :: "'g \<Rightarrow> nat \<Rightarrow> nat list"

text \<open>
  The library first fixes the two sizes: a float \<open>test_size\<close> must lie strictly between
  0 and 1, the test size is the ceiling of the double-precision product
  \<open>test_size * n_samples\<close>, the train size is the rest and must not be 0.
\<close>

definition validate_shuffle_split :: "'g numpy \<Rightarrow> nat \<Rightarrow> real \<Rightarrow> pyerror + (nat \<times> nat)" where
  "validate_shuffle_split np n_samples test_size =
     (if test_size \<le> 0 \<or> test_size \<ge> 1 then Inl ValueError
      else
        (let n_test = nat \<lceil>float_product np test_size (real n_samples)\<rceil>;
             n_train = n_samples - n_test
         in if n_train = 0 then Inl ValueError else Inr (n_train, n_test)))"

text \<open>
  The generator of the split: with no \<open>random_state\<close> it is the process-wide generator,
  whose state differs from run to run; with an integer it is a fresh generator seeded
  with it, and the seed must lie between 0 and \<open>2^32 - 1\<close>.
\<close>

definition check_random_state :: "'g numpy \<Rightarrow> 'g \<Rightarrow> int option \<Rightarrow> pyerror + 'g" where
  "check_random_state np global_state seed =
     (case seed of
        None \<Rightarrow> Inr global_state
      | Some s \<Rightarrow>
          (if s < 0 \<or> s \<ge> 2 ^ 32 then Inl ValueError else Inr (RandomState np s)))"

text \<open>
  The generator draws a permutation of the indices; the first \<open>n_test\<close> of them are the
  test indices and the next \<open>n_train\<close> the train indices.
\<close>

definition shuffle_split_indices ::
  "'g numpy \<Rightarrow> 'g \<Rightarrow> nat \<Rightarrow> real \<Rightarrow> int option \<Rightarrow> pyerror + (nat list \<times> nat list)" where
  "shuffle_split_indices np global_state n_samples test_size random_state =
     (case validate_shuffle_split np n_samples test_size of
        Inl e \<Rightarrow> Inl e
      | Inr (n_train, n_test) \<Rightarrow>
          (case check_random_state np global_state random_state of
             Inl e \<Rightarrow> Inl e
           | Inr rng \<Rightarrow>
               (let p = permutation np rng n_samples
                in Inr (take n_train (drop n_test p), take n_test p))))"

text \<open>
  The dataset is the list of its examples; the two subsets are the examples at the train
  indices and at the test indices, in this order.
\<close>

definition train_test_split ::
  "'g numpy \<Rightarrow> 'g \<Rightarrow> 'a list \<Rightarrow> real \<Rightarrow> int option \<Rightarrow> pyerror + ('a list \<times> 'a list)" where
  "train_test_split np global_state arr test_size random_state =
     (case shuffle_split_indices np global_state (length arr) test_size random_state of
        Inl e \<Rightarrow> Inl e
      | Inr (ind_train, ind_test) \<Rightarrow> Inr (map ((!) arr) ind_train, map ((!) arr) ind_test))"

text \<open>
  Line 89 itself. \<open>global_state\<close> is the state of the process-wide generator when the
  run reaches the line.
\<close>

definition train_split ::
  "'g numpy \<Rightarrow> 'g \<Rightarrow> namespace \<Rightarrow> 'a list \<Rightarrow> pyerror + ('a list \<times> 'a list)" where
  "train_split np global_state ns RE_train_dataset =
     train_test_split np global_state RE_train_dataset
       (args_split_ratio ns) (Some (args_seed ns))"

text \<open>
  The framework's \<open>TrainingArguments\<close>, with the fields \<open>train\<close> sets (the two
  directory constants come from the module \<open>constants\<close> and are left out) and
  \<open>warmup_ratio\<close>, which \<open>get_warmup_steps\<close> reads and \<open>train\<close> leaves at the
  framework's default 0.
\<close>

record training_arguments =
  save_total_limit :: int
  save_steps :: int
  num_train_epochs :: int
  learning_rate :: real
  per_device_train_batch_size :: int
  per_device_eval_batch_size :: int
  warmup_steps :: int
  warmup_ratio :: real
  weight_decay :: real
  logging_steps :: int
  evaluation_strategy :: string
  eval_steps :: int
  load_best_model_at_end :: bool
  metric_for_best_model :: string
  report_to :: string

text \<open>
  Lines 107-127. \<open>ns\<close> is the namespace \<open>args\<close> and \<open>n\<close> is
  \<open>len(train_dataset)\<close>. Python's \<open>//\<close> on integers is floor division, which is
  \<open>div\<close> on \<open>int\<close>, and raises on a zero divisor. The framework's constructor
  then looks at the evaluation steps, since the evaluation strategy is \<open>steps\<close>: when
  they are 0 it takes the logging steps in their place, and raises \<open>ValueError\<close> when
  those are not positive either.
\<close>

definition train_training_args :: "namespace \<Rightarrow> int \<Rightarrow> pyerror + training_arguments" where
  "train_training_args ns n =
     (if args_batch ns = 0 then Inl ZeroDivisionError
      else if n div args_batch ns div 2 = 0 \<and> args_logging_steps ns \<le> 0 then Inl ValueError
      else Inr \<lparr>
        save_total_limit = 5,
        save_steps = n div args_batch ns div 2,
        num_train_epochs = args_epochs ns,
        learning_rate = args_lr ns,
        per_device_train_batch_size = args_batch ns,
        per_device_eval_batch_size = args_batch_valid ns,
        warmup_steps = args_warmup_steps ns,
        warmup_ratio = 0,
        weight_decay = args_warmup ns,
        logging_steps = args_logging_steps ns,
        evaluation_strategy = ''steps'',
        eval_steps =
          (if n div args_batch ns div 2 = 0 then args_logging_steps ns
           else n div args_batch ns div 2),
        load_best_model_at_end = True,
        metric_for_best_model = args_metric_for_best_model ns,
        report_to = ''wandb'' \<rparr>)"

text \<open>An optimizer, as far as a scheduler reads it: the initial learning rate.\<close>

record optimizer_obj =
  base_lr :: real

text \<open>
  The scheduler objects the script constructs: the result of the framework's
  \<open>get_scheduler(name, optimizer, num_warmup_steps, num_training_steps)\<close> and
  \<open>torch.optim.lr_scheduler.StepLR(optimizer, step_size, gamma)\<close>.
\<close>

datatype lr_scheduler_obj =
    Get_scheduler string optimizer_obj int int
  | StepLR optimizer_obj int real

datatype callback = EarlyStoppingCallback int

text \<open>
  The trainer object, with the attributes the two overridden methods read or write.
  \<open>num_labels\<close> is \<open>self.model.config.num_labels\<close>.
\<close>

record trainer =
  loss_name :: string
  scheduler :: string
  num_training_steps :: int
  args :: training_arguments
  num_labels :: int
  callbacks :: "callback list"
  optimizer :: "optimizer_obj option"
  lr_scheduler :: "lr_scheduler_obj option"

text \<open>
  Lines 28-32. The base class constructor, called without \<open>optimizers\<close>, leaves
  \<open>self.optimizer\<close> and \<open>self.lr_scheduler\<close> at \<open>None\<close>; the subclass then stores its
  three own arguments without looking at them.
\<close>

definition CustomTrainer_init ::
  "string \<Rightarrow> string \<Rightarrow> int \<Rightarrow> training_arguments \<Rightarrow> int \<Rightarrow> callback list \<Rightarrow> trainer" where
  "CustomTrainer_init loss_name' scheduler' num_training_steps' args' num_labels' callbacks' = \<lparr>
     loss_name = loss_name',
     scheduler = scheduler',
     num_training_steps = num_training_steps',
     args = args',
     num_labels = num_labels',
     callbacks = callbacks',
     optimizer = None,
     lr_scheduler = None \<rparr>"

text \<open>
  Lines 98-99 and 107-140: the configuration and the trainer \<open>train\<close> builds from the
  namespace and \<open>n = len(train_dataset)\<close>.
\<close>

definition train_trainer :: "namespace \<Rightarrow> int \<Rightarrow> pyerror + trainer" where
  "train_trainer ns n =
     (case train_training_args ns n of
        Inl e \<Rightarrow> Inl e
      | Inr training_args \<Rightarrow>
          Inr (CustomTrainer_init (args_loss ns) (args_scheduler ns)
                 (args_epochs ns * n div args_batch ns)
                 training_args 30 [EarlyStoppingCallback 2]))"

subsection \<open>Scheduler construction (\<open>CustomTrainer.create_scheduler\<close>, lines 51-68)\<close>

text \<open>
  The framework's \<open>TrainingArguments.get_warmup_steps\<close>: the configured number of
  warmup steps when it is positive, otherwise the ratio of the training steps, rounded up.
\<close>

definition get_warmup_steps :: "training_arguments \<Rightarrow> int \<Rightarrow> int" where
  "get_warmup_steps a n =
     (if warmup_steps a > 0 then warmup_steps a
      else \<lceil>real_of_int n * warmup_ratio a\<rceil>)"

text \<open>
  Neither library constructor accepts \<open>None\<close> in the place of the optimizer:
  \<open>get_scheduler\<close> builds a \<open>LambdaLR\<close>, which reads the optimizer's parameter groups
  first and fails with \<open>AttributeError\<close>; \<open>StepLR\<close> rejects it with \<open>TypeError\<close>.
\<close>

definition make_get_scheduler ::
  "string \<Rightarrow> optimizer_obj option \<Rightarrow> int \<Rightarrow> int \<Rightarrow> pyerror + lr_scheduler_obj" where
  "make_get_scheduler name opt num_warmup_steps n =
     (case opt of None \<Rightarrow> Inl AttributeError
      | Some ob \<Rightarrow> Inr (Get_scheduler name ob num_warmup_steps n))"

definition make_StepLR ::
  "optimizer_obj option \<Rightarrow> int \<Rightarrow> real \<Rightarrow> pyerror + lr_scheduler_obj" where
  "make_StepLR opt step_size gamma =
     (case opt of None \<Rightarrow> Inl TypeError
      | Some ob \<Rightarrow> Inr (StepLR ob step_size gamma))"

text \<open>
  The method returns the updated trainer and the value of \<open>self.lr_scheduler\<close>. The call
  of \<open>get_scheduler\<close> stands at the indentation of the \<open>cosine\<close> branch and belongs to
  it: the \<open>linear\<close> branch only binds the local name \<open>my_scheduler\<close>. A name that
  matches no branch falls through to the \<open>return\<close>.
\<close>

definition create_scheduler ::
  "trainer \<Rightarrow> int \<Rightarrow> optimizer_obj option \<Rightarrow> pyerror + (trainer \<times> lr_scheduler_obj option)" where
  "create_scheduler self n opt =
     (if scheduler self = ''linear'' \<or> scheduler self = ''cosine'' then
        (if scheduler self = ''linear'' then
           Inr (self, lr_scheduler self)
         else if scheduler self = ''cosine'' then
           (case make_get_scheduler ''cosine_with_restarts''
                   (case opt of None \<Rightarrow> optimizer self | Some ob \<Rightarrow> Some ob)
                   (get_warmup_steps (args self) n) n of
              Inl e \<Rightarrow> Inl e
            | Inr s \<Rightarrow> Inr (self\<lparr>lr_scheduler := Some s\<rparr>, Some s))
         else Inr (self, lr_scheduler self))
      else if scheduler self = ''steplr'' then
        (case make_StepLR (optimizer self) 1080 (1 / 2) of
           Inl e \<Rightarrow> Inl e
         | Inr s \<Rightarrow> Inr (self\<lparr>lr_scheduler := Some s\<rparr>, Some s))
      else Inr (self, lr_scheduler self))"

text \<open>
  The learning rate of a \<open>StepLR\<close> scheduler after \<open>t\<close> calls of its \<open>step\<close>: the
  initial rate times \<open>gamma\<close> to the power \<open>t // step_size\<close> (the library's closed form).
\<close>

definition StepLR_get_lr :: "optimizer_obj \<Rightarrow> int \<Rightarrow> real \<Rightarrow> int \<Rightarrow> real" where
  "StepLR_get_lr ob step_size gamma t = base_lr ob * gamma ^ nat (t div step_size)"

subsection \<open>Loss computation (\<open>CustomTrainer.compute_loss\<close>, lines 33-49)\<close>

text \<open>
  What the local name \<open>loss_fct\<close> is bound to: the class \<open>nn.CrossEntropyLoss\<close> itself
  (line 40 has no call parentheses) or an instance of one of the three loss modules of
  \<open>utilities.criterion.loss\<close>.
\<close>

datatype loss_fct =
    CrossEntropyLoss_class
  | LabelSmoothingLoss_instance
  | FocalLoss_instance
  | F1Loss_instance

text \<open>The \<open>if\<close>/\<open>elif\<close> chain of lines 39-46; \<open>None\<close> is the name left unbound.\<close>

definition select_loss_fct :: "string \<Rightarrow> loss_fct option" where
  "select_loss_fct name =
     (if name = ''CE'' then Some CrossEntropyLoss_class
      else if name = ''LB'' then Some LabelSmoothingLoss_instance
      else if name = ''focal'' then Some FocalLoss_instance
      else if name = ''f1'' then Some F1Loss_instance
      else None)"

text \<open>
  The \<open>forward\<close> methods of the three loss modules, which are not part of the script,
  are parameters: each maps the logits (one row per example) and the labels to a number.
\<close>

record criterion =
  LabelSmoothingLoss_forward :: "real list list \<Rightarrow> int list \<Rightarrow> real"
  FocalLoss_forward :: "real list list \<Rightarrow> int list \<Rightarrow> real"
  F1Loss_forward :: "real list list \<Rightarrow> int list \<Rightarrow> real"

text \<open>
  The value \<open>compute_loss\<close> gets back from \<open>loss_fct(...)\<close>: a scalar tensor, or a
  freshly constructed \<open>CrossEntropyLoss\<close> module.
\<close>

datatype loss_value =
    Scalar real
  | CrossEntropyLoss_module

text \<open>
  Calling \<open>loss_fct\<close> with the two tensors. An instance runs its \<open>forward\<close>. The class
  runs its constructor with the logits as \<open>weight\<close> and the labels as \<open>size_average\<close>:
  the constructor takes the truth value of \<open>size_average\<close>, which a tensor has only when
  it holds exactly one element (\<open>RuntimeError\<close> otherwise), and returns the module.
\<close>

definition call_loss_fct ::
  "criterion \<Rightarrow> loss_fct \<Rightarrow> real list list \<Rightarrow> int list \<Rightarrow> pyerror + loss_value" where
  "call_loss_fct crit f lg lb =
     (case f of
        CrossEntropyLoss_class \<Rightarrow>
          (if length lb = 1 then Inr CrossEntropyLoss_module else Inl RuntimeError)
      | LabelSmoothingLoss_instance \<Rightarrow> Inr (Scalar (LabelSmoothingLoss_forward crit lg lb))
      | FocalLoss_instance \<Rightarrow> Inr (Scalar (FocalLoss_forward crit lg lb))
      | F1Loss_instance \<Rightarrow> Inr (Scalar (F1Loss_forward crit lg lb)))"

text \<open>
  A tensor is its elements in row-major order. \<open>view(-1, c)\<close> cuts them into rows of
  \<open>c\<close> elements and raises when they do not fill whole rows.
\<close>

function rows_of :: "nat \<Rightarrow> real list \<Rightarrow> real list list" where
  "rows_of c xs = (if c = 0 \<or> xs = [] then [] else take c xs # rows_of c (drop c xs))"
  by pat_completeness auto
termination
  by (relation "measure (\<lambda>(c, xs). length xs)") auto

definition view_rows :: "int \<Rightarrow> real list \<Rightarrow> pyerror + real list list" where
  "view_rows c xs =
     (if c \<le> 0 then Inl RuntimeError
      else if length xs mod nat c \<noteq> 0 then Inl RuntimeError
      else Inr (rows_of (nat c) xs))"

text \<open>
  A batch (\<open>inputs\<close>): the labels, \<open>None\<close> when the key is missing, and the features the
  model reads. The model's forward pass is a parameter returning the logits.
\<close>

record 'x inputs =
  labels :: "int list option"
  features :: 'x

record outputs =
  logits :: "real list"

text \<open>
  The name \<open>loss_fct\<close> is looked up before the arguments of the call are evaluated, so
  an unbound name raises first. The result is the loss and, when asked for, the outputs.
\<close>

definition compute_loss ::
  "criterion \<Rightarrow> ('x inputs \<Rightarrow> outputs) \<Rightarrow> trainer \<Rightarrow> 'x inputs \<Rightarrow> bool
     \<Rightarrow> pyerror + (loss_value \<times> outputs option)" where
  "compute_loss crit model self inp return_outputs =
     (let labels' = labels inp;
          outputs' = model inp;
          logits' = logits outputs'
      in case select_loss_fct (loss_name self) of
           None \<Rightarrow> Inl (UnboundLocalError ''loss_fct'')
         | Some f \<Rightarrow>
             (case view_rows (num_labels self) logits' of
                Inl e \<Rightarrow> Inl e
              | Inr lg \<Rightarrow>
                  (case labels' of
                     None \<Rightarrow> Inl AttributeError
                   | Some lb \<Rightarrow>
                       (case call_loss_fct crit f lg lb of
                          Inl e \<Rightarrow> Inl e
                        | Inr loss \<Rightarrow>
                            Inr (loss, if return_outputs then Some outputs' else None)))))"

text \<open>
  A model for the examples below: on every batch of one example it returns logits that
  put all but a negligible share of the probability on class 0.
\<close>

definition confident_model :: "unit inputs \<Rightarrow> outputs" where
  "confident_model inp = \<lparr>logits = 100 # replicate 29 0\<rparr>"

text \<open>
  A numeric library for the examples below. Its product is exact except at
  \<open>0.07 * 100\<close>, which in double precision is \<open>7.000000000000001\<close>, that is
  \<open>7 + 2^-50\<close>; a generator's state is its seed, and the permutation it draws is the
  indices in descending order from an even state and in ascending order from an odd one.
\<close>

definition sample_product :: "real \<Rightarrow> real \<Rightarrow> real" where
  "sample_product a b = (if a = 7 / 100 \<and> b = 100 then 7 + 1 / 2 ^ 50 else a * b)"

definition sample_permutation :: "int \<Rightarrow> nat \<Rightarrow> nat list" where
  "sample_permutation rng n = (if even rng then rev [0..<n] else [0..<n])"

definition sample_numpy :: "int numpy" where
  "sample_numpy = \<lparr>float_product = sample_product, RandomState = id,
                    permutation = sample_permutation\<rparr>"

section \<open>Properties\<close>

subsection \<open>Helper facts\<close>

lemma select_loss_fct_unknown:
  "name \<notin> {''CE'', ''LB'', ''focal'', ''f1''} \<Longrightarrow> select_loss_fct name = None"
  by (simp add: select_loss_fct_def)

lemma rows_of_one_row: "rows_of 30 (100 # replicate 29 0) = [100 # replicate 29 0]"
  by (simp add: rows_of.simps[of 30 "100 # replicate 29 0"] rows_of.simps[of 30 "[]"])

lemma ceiling_near_nearest:
  fixes p x :: real and z :: int
  assumes "\<bar>p - x\<bar> < 1 / 2" and "\<bar>real_of_int z - x\<bar> \<le> 1 / 2"
  shows "\<bar>\<lceil>p\<rceil> - z\<bar> \<le> 1"
proof -
  have "real_of_int \<lceil>p\<rceil> < p + 1" by linarith
  moreover have "p \<le> real_of_int \<lceil>p\<rceil>" by linarith
  ultimately have "real_of_int \<lceil>p\<rceil> - real_of_int z < 2"
    and "- 1 < real_of_int \<lceil>p\<rceil> - real_of_int z"
    using assms by linarith+
  then have "\<lceil>p\<rceil> - z < 2" and "- 1 < \<lceil>p\<rceil> - z" by linarith+
  then show ?thesis by linarith
qed

lemma round_is_nearest: "\<bar>real_of_int (round x) - x\<bar> \<le> 1 / 2"
  for x :: real
  unfolding round_def by linarith

lemma n_test_nonneg:
  fixes p r :: real
  assumes "0 < r" and "\<bar>p - r * real n\<bar> < 1 / 2"
  shows "0 \<le> \<lceil>p\<rceil>"
proof -
  have "0 \<le> r * real n" using assms(1) by simp
  then have "- 1 < p" using assms(2) by linarith
  then show ?thesis by linarith
qed

lemma split_indices_ok:
  assumes r: "0 < r" "r < 1"
    and k0: "0 \<le> \<lceil>float_product np r (real n)\<rceil>"
    and nt: "\<lceil>float_product np r (real n)\<rceil> < int n"
    and s: "0 \<le> s" "s < 2 ^ 32"
  shows "shuffle_split_indices np g n r (Some s)
     = Inr (take (n - nat \<lceil>float_product np r (real n)\<rceil>)
              (drop (nat \<lceil>float_product np r (real n)\<rceil>) (permutation np (RandomState np s) n)),
            take (nat \<lceil>float_product np r (real n)\<rceil>) (permutation np (RandomState np s) n))"
proof -
  have "n - nat \<lceil>float_product np r (real n)\<rceil> \<noteq> 0" using nt k0 by linarith
  then show ?thesis using r s
    by (simp add: shuffle_split_indices_def validate_shuffle_split_def check_random_state_def
          Let_def)
qed

lemma split_of_permutation:
  assumes p: "mset p = mset [0..<n]" and k: "k \<le> n"
  shows "mset (take (n - k) (drop k p) @ take k p) = mset [0..<n]"
    and "set (take (n - k) (drop k p)) \<inter> set (take k p) = {}"
    and "length (take (n - k) (drop k p)) = n - k" and "length (take k p) = k"
proof -
  have len: "length p = n" using p by (metis length_upt mset_eq_length minus_nat.diff_0)
  then have full: "take (n - k) (drop k p) = drop k p" by simp
  have "mset (take k p) + mset (drop k p) = mset p"
    by (metis append_take_drop_id mset_append)
  then show "mset (take (n - k) (drop k p) @ take k p) = mset [0..<n]"
    using full p by (simp add: ac_simps)
  have "distinct p" using p by (metis distinct_upt mset_eq_imp_distinct_iff)
  then have "distinct (take k p @ drop k p)" by simp
  then show "set (take (n - k) (drop k p)) \<inter> set (take k p) = {}"
    unfolding full by (auto simp only: distinct_append)
  show "length (take (n - k) (drop k p)) = n - k" using len by simp
  show "length (take k p) = k" using len k by simp
qed

lemma map_nth_permutation:
  assumes "mset p = mset [0..<length xs]"
  shows "mset (map ((!) xs) p) = mset xs"
proof -
  have "mset (map ((!) xs) p) = image_mset ((!) xs) (mset p)" by simp
  also have "\<dots> = image_mset ((!) xs) (mset [0..<length xs])" using assms by simp
  also have "\<dots> = mset (map ((!) xs) [0..<length xs])" by simp
  also have "\<dots> = mset xs" by (simp add: map_nth)
  finally show ?thesis .
qed

lemma sample_ceilings:
  "\<lceil>7 + 1 / 2 ^ 50 :: real\<rceil> = 8" "\<lceil>1 / 5 :: real\<rceil> = 1"
proof -
  have "(0::real) < 1 / 2 ^ 50" by simp
  moreover have "(1::real) / 2 ^ 50 \<le> 1" by simp
  ultimately show "\<lceil>7 + 1 / 2 ^ 50 :: real\<rceil> = 8" by linarith
  show "\<lceil>1 / 5 :: real\<rceil> = 1" by linarith
qed

subsection \<open>Dataset split\<close>

text \<open>
  Claim C6 says that for every dataset size, split ratio and seed the split produces two
  disjoint subsets that cover the dataset, the validation subset within one of
  \<open>round(N * r)\<close>, the same on every run with the same seed and ratio. Not for every
  input: with the default ratio 0.2 a dataset of one example leaves no training example,
  a ratio of 1.5 is no proportion, and the seed -1 is out of the generator's range; on
  each of the three the split raises \<open>ValueError\<close> and produces no subsets.
\<close>

theorem train_split_counterexample:
  "train_split sample_numpy 0 (parse_args no_flags) [10 :: nat] = Inl ValueError
   \<and> train_split sample_numpy 0 (parse_args (no_flags\<lparr>cli_split_ratio := Some (3 / 2)\<rparr>))
         [10, 11, 12, 13, 14, 15, 16, 17, 18, 19 :: nat] = Inl ValueError
   \<and> train_split sample_numpy 0 (parse_args (no_flags\<lparr>cli_seed := Some (- 1)\<rparr>))
         [10, 11, 12, 13, 14, 15, 16, 17, 18, 19 :: nat] = Inl ValueError"
  by (simp add: train_split_def train_test_split_def shuffle_split_indices_def
        validate_shuffle_split_def check_random_state_def parse_args_def no_flags_def
        get_arg_def sample_numpy_def sample_product_def sample_ceilings)

text \<open>
  Claim C6 as amended: for every dataset of size \<open>N\<close>, every split ratio \<open>r\<close> strictly
  between 0 and 1 that leaves a training example (the ceiling of the computed product
  \<open>r * N\<close> is below \<open>N\<close>) and every seed from 0 to \<open>2^32 - 1\<close>, the split succeeds; the
  train and validation indices are disjoint and together are all indices, so the two
  subsets together hold exactly the examples of the dataset; the sizes sum to \<open>N\<close>; the
  validation size is within one of \<open>round(N * r)\<close>, whichever nearest integer \<open>round\<close>
  takes; and every run with the same ratio and seed yields the same two subsets,
  whatever the state of the process-wide generator and the other settings of that run.
  The computed product is assumed to be within one half of the exact one, as a
  double-precision product is for every dataset that fits in memory, and the generator
  is assumed to draw a permutation of the indices.
\<close>

theorem train_split_partition:
  assumes r: "0 < args_split_ratio ns" "args_split_ratio ns < 1"
    and fl: "\<bar>float_product np (args_split_ratio ns) (real (length ds))
               - args_split_ratio ns * real (length ds)\<bar> < 1 / 2"
    and nt: "\<lceil>float_product np (args_split_ratio ns) (real (length ds))\<rceil> < int (length ds)"
    and s: "0 \<le> args_seed ns" "args_seed ns < 2 ^ 32"
    and p: "mset (permutation np (RandomState np (args_seed ns)) (length ds))
              = mset [0..<length ds]"
  shows "\<exists>ind_train ind_val.
           shuffle_split_indices np g (length ds) (args_split_ratio ns) (Some (args_seed ns))
             = Inr (ind_train, ind_val)
         \<and> train_split np g ns ds = Inr (map ((!) ds) ind_train, map ((!) ds) ind_val)
         \<and> set ind_train \<inter> set ind_val = {}
         \<and> mset (ind_train @ ind_val) = mset [0..<length ds]
         \<and> mset (map ((!) ds) ind_train @ map ((!) ds) ind_val) = mset ds
         \<and> length ind_train + length ind_val = length ds
         \<and> int (length ind_val)
              = \<lceil>float_product np (args_split_ratio ns) (real (length ds))\<rceil>
         \<and> \<bar>int (length ind_val) - round (args_split_ratio ns * real (length ds))\<bar> \<le> 1
         \<and> (\<forall>z. \<bar>real_of_int z - args_split_ratio ns * real (length ds)\<bar> \<le> 1 / 2
                \<longrightarrow> \<bar>int (length ind_val) - z\<bar> \<le> 1)
         \<and> (\<forall>g' ns'. args_split_ratio ns' = args_split_ratio ns \<and> args_seed ns' = args_seed ns
                \<longrightarrow> train_split np g' ns' ds
                      = Inr (map ((!) ds) ind_train, map ((!) ds) ind_val))"
proof -
  let ?n = "length ds" and ?r = "args_split_ratio ns"
  let ?P = "permutation np (RandomState np (args_seed ns)) (length ds)"
  let ?c = "\<lceil>float_product np ?r (real ?n)\<rceil>"
  let ?k = "nat ?c"
  let ?tr = "take (?n - ?k) (drop ?k ?P)" and ?va = "take ?k ?P"
  have k0: "0 \<le> ?c" using n_test_nonneg [OF r(1) fl] .
  have k: "?k \<le> ?n" using nt by linarith
  have idx: "shuffle_split_indices np g ?n ?r (Some (args_seed ns)) = Inr (?tr, ?va)" for g
    using split_indices_ok [OF r k0 nt s] .
  have sp: "train_split np g ns ds = Inr (map ((!) ds) ?tr, map ((!) ds) ?va)" for g
    by (simp add: train_split_def train_test_split_def idx)
  note P = split_of_permutation [OF p k]
  have ex: "mset (map ((!) ds) ?tr @ map ((!) ds) ?va) = mset ds"
    using map_nth_permutation [of "?tr @ ?va" ds] P(1) by simp
  have len: "length ?tr + length ?va = ?n" using P(3,4) k by simp
  have lv: "int (length ?va) = ?c" using P(4) k0 by simp
  have near: "\<bar>int (length ?va) - z\<bar> \<le> 1"
    if "\<bar>real_of_int z - ?r * real ?n\<bar> \<le> 1 / 2" for z
    unfolding lv using ceiling_near_nearest [OF fl that] .
  have rd: "\<bar>int (length ?va) - round (?r * real ?n)\<bar> \<le> 1"
    using near [OF round_is_nearest] .
  have det: "train_split np g' ns' ds = Inr (map ((!) ds) ?tr, map ((!) ds) ?va)"
    if "args_split_ratio ns' = ?r \<and> args_seed ns' = args_seed ns" for g' ns'
  proof -
    have "train_split np g' ns' ds = train_split np g' ns ds"
      using that by (simp add: train_split_def)
    then show ?thesis using sp by simp
  qed
  show ?thesis
    using idx sp P(2) P(1) ex len lv rd near det by blast
qed

text \<open>
  The amended claim C6 on the run \<open>--split_ratio 0.07\<close> (seed 42) with 100 examples,
  where the computed product is \<open>7.000000000000001\<close>: 92 examples go to training and 8
  to validation, one more than \<open>round(7) = 7\<close>, and a second run that starts from another
  state of the process-wide generator yields the same split.
\<close>

theorem train_split_partition_witness:
  "(\<exists>ind_train ind_val.
       shuffle_split_indices sample_numpy 0 100 (7 / 100) (Some 42) = Inr (ind_train, ind_val)
       \<and> train_split sample_numpy 0 (parse_args (no_flags\<lparr>cli_split_ratio := Some (7 / 100)\<rparr>))
            [0..<100]
           = Inr (map ((!) [0..<100]) ind_train, map ((!) [0..<100]) ind_val)
       \<and> train_split sample_numpy 1 (parse_args (no_flags\<lparr>cli_split_ratio := Some (7 / 100)\<rparr>))
            [0..<100]
           = Inr (map ((!) [0..<100]) ind_train, map ((!) [0..<100]) ind_val)
       \<and> set ind_train \<inter> set ind_val = {}
       \<and> mset (ind_train @ ind_val) = mset [0..<100]
       \<and> length ind_train + length ind_val = 100
       \<and> int (length ind_val) = 8
       \<and> \<bar>int (length ind_val) - 7\<bar> \<le> 1)"
proof -
  let ?ns = "parse_args (no_flags\<lparr>cli_split_ratio := Some (7 / 100)\<rparr>)"
  let ?ds = "[0..<100]"
  have a: "args_split_ratio ?ns = 7 / 100" "args_seed ?ns = 42"
    by (simp_all add: parse_args_def no_flags_def get_arg_def)
  have l: "length ?ds = 100" by simp
  have fp: "float_product sample_numpy (7 / 100) (real (100::nat)) = 7 + 1 / 2 ^ 50"
    by (simp add: sample_numpy_def sample_product_def)
  have h1: "0 < args_split_ratio ?ns" "args_split_ratio ?ns < 1" by (simp_all add: a)
  have h2: "\<bar>float_product sample_numpy (args_split_ratio ?ns) (real (length ?ds))
               - args_split_ratio ?ns * real (length ?ds)\<bar> < 1 / 2"
    unfolding a l fp by simp
  have h3: "\<lceil>float_product sample_numpy (args_split_ratio ?ns) (real (length ?ds))\<rceil>
              < int (length ?ds)"
    unfolding a l fp sample_ceilings by simp
  have h4: "0 \<le> args_seed ?ns" "args_seed ?ns < 2 ^ 32" by (simp_all add: a)
  have h5: "mset (permutation sample_numpy (RandomState sample_numpy (args_seed ?ns)) (length ?ds))
              = mset [0..<length ?ds]"
    by (simp add: sample_numpy_def sample_permutation_def)
  have z: "\<bar>real_of_int 7 - args_split_ratio ?ns * real (length ?ds)\<bar> \<le> 1 / 2"
    unfolding a l by simp
  from train_split_partition [where ns = ?ns and ds = ?ds and np = sample_numpy and g = 0,
      OF h1 h2 h3 h4 h5]
  obtain ind_train ind_val where
    c: "shuffle_split_indices sample_numpy 0 (length ?ds) (args_split_ratio ?ns)
          (Some (args_seed ?ns)) = Inr (ind_train, ind_val)"
      "train_split sample_numpy 0 ?ns ?ds = Inr (map ((!) ?ds) ind_train, map ((!) ?ds) ind_val)"
      "set ind_train \<inter> set ind_val = {}"
      "mset (ind_train @ ind_val) = mset [0..<length ?ds]"
      "length ind_train + length ind_val = length ?ds"
      "int (length ind_val)
         = \<lceil>float_product sample_numpy (args_split_ratio ?ns) (real (length ?ds))\<rceil>"
      "\<forall>z. \<bar>real_of_int z - args_split_ratio ?ns * real (length ?ds)\<bar> \<le> 1 / 2
           \<longrightarrow> \<bar>int (length ind_val) - z\<bar> \<le> 1"
      "\<forall>g' ns'. args_split_ratio ns' = args_split_ratio ?ns \<and> args_seed ns' = args_seed ?ns
           \<longrightarrow> train_split sample_numpy g' ns' ?ds
                 = Inr (map ((!) ?ds) ind_train, map ((!) ?ds) ind_val)"
    by blast
  have "train_split sample_numpy 1 ?ns ?ds = Inr (map ((!) ?ds) ind_train, map ((!) ?ds) ind_val)"
    using c(8) by blast
  moreover have "\<bar>int (length ind_val) - 7\<bar> \<le> 1" using c(7) z by blast
  moreover have "int (length ind_val) = 8" using c(6) unfolding a l fp sample_ceilings .
  moreover have "shuffle_split_indices sample_numpy 0 100 (7 / 100) (Some 42)
                   = Inr (ind_train, ind_val)"
    using c(1) unfolding a l .
  ultimately show ?thesis using c(2,3,4,5) unfolding l by blast
qed

text \<open>
  The seed is what makes the split the same on every run: without it the generator of
  the split is the process-wide one, and two runs that reach the split in different
  states of it split the same ten examples differently.
\<close>

lemma unseeded_split_depends_on_global_state:
  "train_test_split sample_numpy 0 [10, 11, 12, 13, 14, 15, 16, 17, 18, 19 :: nat] (2 / 10) None
     = Inr ([17, 16, 15, 14, 13, 12, 11, 10], [19, 18])
   \<and> train_test_split sample_numpy 1 [10, 11, 12, 13, 14, 15, 16, 17, 18, 19 :: nat] (2 / 10) None
     = Inr ([12, 13, 14, 15, 16, 17, 18, 19], [10, 11])"
proof -
  have up: "[0..<10] = [0, 1, 2, 3, 4, 5, 6, 7, 8, 9 :: nat]" by (simp add: upt_rec)
  show ?thesis
    by (simp add: train_test_split_def shuffle_split_indices_def validate_shuffle_split_def
          check_random_state_def sample_numpy_def sample_product_def sample_permutation_def
          up Let_def)
qed

subsection \<open>Loss selection\<close>

text \<open>
  Claim C1 says that with the loss name \<open>CE\<close> the loss computation returns the
  cross-entropy of the logits against the labels, a scalar that is 0 when the true class
  has probability 1. The code binds \<open>loss_fct\<close> to the class \<open>nn.CrossEntropyLoss\<close>,
  not to an instance as the three sibling branches do, so the call constructs a module:
  whatever the model, the batch and the other settings, \<open>compute_loss\<close> never returns a
  scalar under \<open>CE\<close>; and on a batch of one example whose logits favour the true class 0
  it returns the module object, not the number 0.
\<close>

theorem compute_loss_CE_constructs_module:
  "compute_loss crit model (self\<lparr>loss_name := ''CE''\<rparr>) inp return_outputs \<noteq> Inr (Scalar x, out)
   \<and> compute_loss crit confident_model (CustomTrainer_init ''CE'' sch k ta 30 cbs)
         \<lparr>labels = Some [0], features = ()\<rparr> False
       = Inr (CrossEntropyLoss_module, None)"
proof
  show "compute_loss crit model (self\<lparr>loss_name := ''CE''\<rparr>) inp return_outputs \<noteq> Inr (Scalar x, out)"
    by (auto simp: compute_loss_def select_loss_fct_def Let_def call_loss_fct_def
             split: sum.splits option.splits)
  show "compute_loss crit confident_model (CustomTrainer_init ''CE'' sch k ta 30 cbs)
         \<lparr>labels = Some [0], features = ()\<rparr> False
       = Inr (CrossEntropyLoss_module, None)"
    by (simp add: compute_loss_def select_loss_fct_def Let_def call_loss_fct_def
          CustomTrainer_init_def confident_model_def view_rows_def rows_of_one_row)
qed

text \<open>
  Claim C4 says that a loss name outside \<open>CE\<close>, \<open>LB\<close>, \<open>focal\<close>, \<open>f1\<close> fails with
  \<open>UnknownLossError\<close> or \<open>ConfigurationError\<close> at startup. It does not: with
  \<open>--loss unknown\<close> the command line parses, the trainer is constructed, and the first
  loss computation raises Python's \<open>UnboundLocalError\<close> for \<open>loss_fct\<close>.
\<close>

theorem unknown_loss_counterexample:
  "\<exists>tr. train_trainer (parse_args (no_flags\<lparr>cli_loss := Some ''unknown''\<rparr>)) 100 = Inr tr
      \<and> loss_name tr = ''unknown''
      \<and> (\<forall>crit (model :: unit inputs \<Rightarrow> outputs).
            compute_loss crit model tr \<lparr>labels = Some [3], features = ()\<rparr> False
              = Inl (UnboundLocalError ''loss_fct''))"
  by (simp add: compute_loss_def select_loss_fct_def train_trainer_def train_training_args_def
        parse_args_def no_flags_def get_arg_def CustomTrainer_init_def)

text \<open>
  Claim C4 as amended: for every loss name outside \<open>CE\<close>, \<open>LB\<close>, \<open>focal\<close>, \<open>f1\<close> the
  command line and the trainer's constructor accept the name as it is, and every loss
  computation fails with \<open>UnboundLocalError\<close> for the unbound \<open>loss_fct\<close>; no loss
  value is produced.
\<close>

theorem compute_loss_unknown_name:
  assumes "name \<notin> {''CE'', ''LB'', ''focal'', ''f1''}"
  shows "args_loss (parse_args (c\<lparr>cli_loss := Some name\<rparr>)) = name
     \<and> loss_name (CustomTrainer_init name sch k ta nl cbs) = name
     \<and> compute_loss crit model (self\<lparr>loss_name := name\<rparr>) inp return_outputs
          = Inl (UnboundLocalError ''loss_fct'')"
  using select_loss_fct_unknown [OF assms]
  by (simp add: compute_loss_def parse_args_def get_arg_def CustomTrainer_init_def)

text \<open>The amended claim C4 at the name \<open>unknown\<close>.\<close>

theorem compute_loss_unknown_name_witness:
  "''unknown'' \<notin> {''CE'', ''LB'', ''focal'', ''f1''}
   \<and> args_loss (parse_args (no_flags\<lparr>cli_loss := Some ''unknown''\<rparr>)) = ''unknown''
   \<and> compute_loss
        \<lparr>LabelSmoothingLoss_forward = (\<lambda>lg lb. 0), FocalLoss_forward = (\<lambda>lg lb. 0),
         F1Loss_forward = (\<lambda>lg lb. 0)\<rparr>
        confident_model
        ((projr (train_trainer (parse_args no_flags) 100))\<lparr>loss_name := ''unknown''\<rparr>)
        \<lparr>labels = Some [3], features = ()\<rparr> False
      = Inl (UnboundLocalError ''loss_fct'')"
  using compute_loss_unknown_name [of "''unknown''" no_flags _ _ _ _ _
          "\<lparr>LabelSmoothingLoss_forward = (\<lambda>lg lb. 0), FocalLoss_forward = (\<lambda>lg lb. 0),
            F1Loss_forward = (\<lambda>lg lb. 0)\<rparr>"
          confident_model "projr (train_trainer (parse_args no_flags) 100)"
          "\<lparr>labels = Some [3], features = ()\<rparr>" False]
  by simp

subsection \<open>Scheduler construction\<close>

text \<open>
  Claim C2 says that with the scheduler name \<open>linear\<close> the construction builds and
  stores a schedule with linear warmup and linear decay. The code builds nothing for
  \<open>linear\<close>: the method returns the trainer as it was, with the scheduler attribute it
  already had. In the run with no flags (\<open>linear\<close> is the default) and 100 examples
  that attribute is \<open>None\<close> before and after the call.
\<close>

theorem create_scheduler_linear_builds_nothing:
  "create_scheduler (self\<lparr>scheduler := ''linear''\<rparr>) n opt
     = Inr (self\<lparr>scheduler := ''linear''\<rparr>, lr_scheduler self)
   \<and> (\<exists>tr. train_trainer (parse_args no_flags) 100 = Inr tr
         \<and> scheduler tr = ''linear'' \<and> lr_scheduler tr = None
         \<and> create_scheduler (tr\<lparr>optimizer := Some ob\<rparr>) 60 (Some ob)
             = Inr (tr\<lparr>optimizer := Some ob\<rparr>, None))"
  by (simp add: create_scheduler_def train_trainer_def train_training_args_def
        parse_args_def no_flags_def get_arg_def CustomTrainer_init_def)

text \<open>
  Claim C3 says that a scheduler name outside \<open>linear\<close>, \<open>cosine\<close>, \<open>steplr\<close> is
  rejected with a \<open>ConfigurationError\<close> at startup and that scheduler construction
  never returns an unchanged value for it. It does not: with \<open>--scheduler exponential\<close>
  the command line parses, the trainer is constructed, and \<open>create_scheduler\<close> returns
  \<open>None\<close> without an error, leaving the trainer unchanged.
\<close>

theorem unknown_scheduler_counterexample:
  "\<exists>tr. train_trainer (parse_args (no_flags\<lparr>cli_scheduler := Some ''exponential''\<rparr>)) 100 = Inr tr
      \<and> scheduler tr = ''exponential''
      \<and> create_scheduler (tr\<lparr>optimizer := Some \<lparr>base_lr = 5 / 100000\<rparr>\<rparr>) 60
            (Some \<lparr>base_lr = 5 / 100000\<rparr>)
          = Inr (tr\<lparr>optimizer := Some \<lparr>base_lr = 5 / 100000\<rparr>\<rparr>, None)"
  by (simp add: create_scheduler_def train_trainer_def train_training_args_def
        parse_args_def no_flags_def get_arg_def CustomTrainer_init_def)

text \<open>
  Claim C3 as amended: for every scheduler name outside \<open>linear\<close>, \<open>cosine\<close>,
  \<open>steplr\<close> no error is raised; the command line accepts the name, and scheduler
  construction leaves the trainer unchanged and returns the scheduler attribute it
  already had, which is \<open>None\<close> on a newly constructed trainer.
\<close>

theorem create_scheduler_unknown_name:
  assumes "name \<notin> {''linear'', ''cosine'', ''steplr''}"
  shows "args_scheduler (parse_args (c\<lparr>cli_scheduler := Some name\<rparr>)) = name
     \<and> create_scheduler (self\<lparr>scheduler := name\<rparr>) n opt
          = Inr (self\<lparr>scheduler := name\<rparr>, lr_scheduler self)
     \<and> create_scheduler (CustomTrainer_init lname name k ta nl cbs) n opt
          = Inr (CustomTrainer_init lname name k ta nl cbs, None)"
  using assms
  by (simp add: create_scheduler_def parse_args_def get_arg_def CustomTrainer_init_def)

text \<open>The amended claim C3 at the name \<open>exponential\<close>, on the trainer \<open>train\<close> builds.\<close>

theorem create_scheduler_unknown_name_witness:
  "''exponential'' \<notin> {''linear'', ''cosine'', ''steplr''}
   \<and> args_scheduler (parse_args (no_flags\<lparr>cli_scheduler := Some ''exponential''\<rparr>)) = ''exponential''
   \<and> create_scheduler
        (projr (train_trainer (parse_args (no_flags\<lparr>cli_scheduler := Some ''exponential''\<rparr>)) 100))
        60 None
      = Inr (projr (train_trainer (parse_args (no_flags\<lparr>cli_scheduler := Some ''exponential''\<rparr>)) 100),
             None)"
proof -
  have t: "train_trainer (parse_args (no_flags\<lparr>cli_scheduler := Some ''exponential''\<rparr>)) 100
      = Inr (CustomTrainer_init ''focal'' ''exponential'' 62
               (projr (train_training_args (parse_args (no_flags\<lparr>cli_scheduler := Some ''exponential''\<rparr>)) 100))
               30 [EarlyStoppingCallback 2])"
    by (simp add: train_trainer_def train_training_args_def parse_args_def no_flags_def get_arg_def)
  show ?thesis
    unfolding t
    using create_scheduler_unknown_name [of "''exponential''" no_flags _ 60 None "''focal''" 62 _ 30
            "[EarlyStoppingCallback 2]"]
    by simp
qed

text \<open>
  Claim C5: with the scheduler name \<open>steplr\<close> (and the optimizer in place) the
  construction stores a \<open>StepLR\<close> schedule with step size 1080 and factor one half. Its
  rate is the base rate times one half after exactly 1080 steps and times one quarter
  after 2160 steps; it is the base rate itself on every step before 1080, so there is no
  warmup; and 1080 further steps always halve it.
\<close>

theorem create_scheduler_steplr:
  assumes "scheduler self = ''steplr''" and "optimizer self = Some ob"
  shows "create_scheduler self n opt
           = Inr (self\<lparr>lr_scheduler := Some (StepLR ob 1080 (1 / 2))\<rparr>, Some (StepLR ob 1080 (1 / 2)))
     \<and> StepLR_get_lr ob 1080 (1 / 2) 1080 = base_lr ob * (1 / 2)
     \<and> StepLR_get_lr ob 1080 (1 / 2) 2160 = base_lr ob * (1 / 4)
     \<and> (\<forall>t. 0 \<le> t \<and> t < 1080 \<longrightarrow> StepLR_get_lr ob 1080 (1 / 2) t = base_lr ob)
     \<and> (\<forall>t. 0 \<le> t \<longrightarrow> StepLR_get_lr ob 1080 (1 / 2) (t + 1080) = StepLR_get_lr ob 1080 (1 / 2) t * (1 / 2))"
proof (intro conjI allI impI)
  show "create_scheduler self n opt
           = Inr (self\<lparr>lr_scheduler := Some (StepLR ob 1080 (1 / 2))\<rparr>, Some (StepLR ob 1080 (1 / 2)))"
    using assms by (simp add: create_scheduler_def make_StepLR_def)
  show "StepLR_get_lr ob 1080 (1 / 2) 1080 = base_lr ob * (1 / 2)"
    by (simp add: StepLR_get_lr_def)
  show "StepLR_get_lr ob 1080 (1 / 2) 2160 = base_lr ob * (1 / 4)"
    by (simp add: StepLR_get_lr_def power2_eq_square)
next
  fix t :: int assume "0 \<le> t \<and> t < 1080"
  then have "t div 1080 = 0" by simp
  then show "StepLR_get_lr ob 1080 (1 / 2) t = base_lr ob"
    by (simp add: StepLR_get_lr_def)
next
  fix t :: int assume t: "0 \<le> t"
  have "(t + 1080) div 1080 = t div 1080 + 1" by simp
  moreover have "0 \<le> t div 1080" using t by simp
  ultimately have "nat ((t + 1080) div 1080) = Suc (nat (t div 1080))" by simp
  then show "StepLR_get_lr ob 1080 (1 / 2) (t + 1080) = StepLR_get_lr ob 1080 (1 / 2) t * (1 / 2)"
    by (simp add: StepLR_get_lr_def)
qed

text \<open>
  Claim C5 on the run \<open>--scheduler steplr\<close> with 100 examples and the default learning
  rate \<open>5e-5\<close>: the rate is \<open>2.5e-5\<close> after 1080 steps, \<open>1.25e-5\<close> after 2160 steps
  and still \<open>5e-5\<close> at step 1079.
\<close>

theorem create_scheduler_steplr_witness:
  "scheduler ((projr (train_trainer (parse_args (no_flags\<lparr>cli_scheduler := Some ''steplr''\<rparr>)) 100))
                \<lparr>optimizer := Some \<lparr>base_lr = 5 / 100000\<rparr>\<rparr>) = ''steplr''
   \<and> create_scheduler
        ((projr (train_trainer (parse_args (no_flags\<lparr>cli_scheduler := Some ''steplr''\<rparr>)) 100))
           \<lparr>optimizer := Some \<lparr>base_lr = 5 / 100000\<rparr>\<rparr>) 60 (Some \<lparr>base_lr = 5 / 100000\<rparr>)
      = Inr ((projr (train_trainer (parse_args (no_flags\<lparr>cli_scheduler := Some ''steplr''\<rparr>)) 100))
               \<lparr>optimizer := Some \<lparr>base_lr = 5 / 100000\<rparr>,
                lr_scheduler := Some (StepLR \<lparr>base_lr = 5 / 100000\<rparr> 1080 (1 / 2))\<rparr>,
             Some (StepLR \<lparr>base_lr = 5 / 100000\<rparr> 1080 (1 / 2)))
   \<and> StepLR_get_lr \<lparr>base_lr = 5 / 100000\<rparr> 1080 (1 / 2) 1080 = 25 / 1000000
   \<and> StepLR_get_lr \<lparr>base_lr = 5 / 100000\<rparr> 1080 (1 / 2) 2160 = 125 / 10000000
   \<and> StepLR_get_lr \<lparr>base_lr = 5 / 100000\<rparr> 1080 (1 / 2) 1079 = 5 / 100000"
proof -
  let ?tr = "(projr (train_trainer (parse_args (no_flags\<lparr>cli_scheduler := Some ''steplr''\<rparr>)) 100))
                \<lparr>optimizer := Some \<lparr>base_lr = 5 / 100000\<rparr>\<rparr>"
  have s: "scheduler ?tr = ''steplr''"
    by (simp add: train_trainer_def train_training_args_def parse_args_def no_flags_def
          get_arg_def CustomTrainer_init_def)
  have ob: "optimizer ?tr = Some \<lparr>base_lr = 5 / 100000\<rparr>" by simp
  have b: "(0::int) \<le> 1079 \<and> (1079::int) < 1080" by simp
  from create_scheduler_steplr [OF s ob, of 60 "Some \<lparr>base_lr = 5 / 100000\<rparr>"] b s
  show ?thesis by simp
qed

text \<open>
  Claim C7 says that scheduler construction builds the schedule from the total step
  count, epochs times dataset size over batch size, and the configured warmup steps. In
  the run with no flags and 100 examples the trainer stores that count, 62, and the
  configured 810 warmup steps, but the construction builds no schedule at all, whatever
  step count it is called with (the scheduler is \<open>linear\<close>, the case of claim C2). Where
  a schedule is built, under \<open>cosine\<close>, it is built from the step count passed in the
  call; the count stored in the trainer is not read.
\<close>

theorem create_scheduler_ignores_stored_steps:
  "(\<exists>tr. train_trainer (parse_args no_flags) 100 = Inr tr
        \<and> num_training_steps tr = 62
        \<and> warmup_steps (args tr) = 810
        \<and> create_scheduler (tr\<lparr>optimizer := Some ob\<rparr>) n (Some ob)
            = Inr (tr\<lparr>optimizer := Some ob\<rparr>, None))
   \<and> create_scheduler (self\<lparr>scheduler := ''cosine'', num_training_steps := k\<rparr>) n (Some ob)
       = Inr (self\<lparr>scheduler := ''cosine'', num_training_steps := k,
                   lr_scheduler := Some (Get_scheduler ''cosine_with_restarts'' ob
                                           (get_warmup_steps (args self) n) n)\<rparr>,
              Some (Get_scheduler ''cosine_with_restarts'' ob (get_warmup_steps (args self) n) n))"
  by (simp add: create_scheduler_def train_trainer_def train_training_args_def
        parse_args_def no_flags_def get_arg_def CustomTrainer_init_def make_get_scheduler_def)

subsection \<open>Command line and training configuration\<close>

text \<open>
  Claim C8 says that the weight decay of the training configuration is the value of
  \<open>--weight_decay\<close> (default 0.01). The code passes \<open>args.warmup\<close> instead: whatever
  \<open>--weight_decay\<close> is given, or none, the configured weight decay is the default of
  \<open>--warmup\<close>, 0.1, while the namespace holds 0.01 or the value given.
\<close>

theorem weight_decay_taken_from_warmup:
  "(\<exists>ta. train_training_args (parse_args (no_flags\<lparr>cli_weight_decay := w\<rparr>)) n = Inr ta
         \<and> weight_decay ta = 1 / 10)
   \<and> args_weight_decay (parse_args no_flags) = 1 / 100
   \<and> args_weight_decay (parse_args (no_flags\<lparr>cli_weight_decay := Some (5 / 100)\<rparr>)) = 5 / 100"
  by (simp add: train_training_args_def parse_args_def no_flags_def get_arg_def)

text \<open>
  Claim C10 says that every value given to \<open>--augmentation\<close> parses as true, so that no
  invocation disables the augmentation step. The empty string does: with
  \<open>--augmentation ""\<close> the flag is false and the tokenized data are left as they are
  (here the augmentation would have reversed the list).
\<close>

theorem augmentation_empty_string_counterexample:
  "\<not> args_augmentation (parse_args (no_flags\<lparr>cli_augmentation := Some []\<rparr>))
   \<and> train_tokenized rev (parse_args (no_flags\<lparr>cli_augmentation := Some []\<rparr>)) [1, 2, 3 :: nat]
       = [1, 2, 3]"
  by (simp add: train_tokenized_def parse_args_def no_flags_def get_arg_def py_bool_of_str_def)

text \<open>
  Claim C10 as amended: every non-empty value given to \<open>--augmentation\<close> (the string
  \<open>False\<close> included) parses as true and the augmentation step is applied; so it is when
  the flag is absent; the empty string alone parses as false and skips the step.
\<close>

theorem augmentation_flag_parse:
  "(v \<noteq> [] \<longrightarrow>
       args_augmentation (parse_args (c\<lparr>cli_augmentation := Some v\<rparr>))
     \<and> train_tokenized main_augmentation (parse_args (c\<lparr>cli_augmentation := Some v\<rparr>)) d
         = main_augmentation d)
   \<and> args_augmentation (parse_args (c\<lparr>cli_augmentation := None\<rparr>))
   \<and> train_tokenized main_augmentation (parse_args (c\<lparr>cli_augmentation := None\<rparr>)) d
       = main_augmentation d
   \<and> \<not> args_augmentation (parse_args (c\<lparr>cli_augmentation := Some []\<rparr>))
   \<and> train_tokenized main_augmentation (parse_args (c\<lparr>cli_augmentation := Some []\<rparr>)) d = d"
  by (simp add: train_tokenized_def parse_args_def get_arg_def py_bool_of_str_def)

text \<open>The amended claim C10 at \<open>--augmentation False\<close>.\<close>

theorem augmentation_flag_parse_witness:
  "''False'' \<noteq> []
   \<and> args_augmentation (parse_args (no_flags\<lparr>cli_augmentation := Some ''False''\<rparr>))
   \<and> train_tokenized rev (parse_args (no_flags\<lparr>cli_augmentation := Some ''False''\<rparr>)) [1, 2, 3 :: nat]
       = [3, 2, 1]
   \<and> args_augmentation (parse_args no_flags)"
  using augmentation_flag_parse [of "''False''" no_flags rev "[1, 2, 3 :: nat]"]
  by (simp add: no_flags_def)

end
